theory Spec2Isabelle
  imports Main "HOL-Library.Sublist" "HOL-Library.AList"
begin

section \<open>Python string primitives\<close>

text \<open>
  Python strings are modelled as \<open>string\<close>: a list of characters with code points
  below 256. \<open>str.startswith\<close>, \<open>str.endswith\<close>, \<open>str.rsplit('/', 1)[0]\<close>,
  \<open>str.replace\<close> and \<open>str.splitlines\<close> are written out as the interpreter computes
  them.
\<close>

definition startswith :: "string \<Rightarrow> string \<Rightarrow> bool" where
  "startswith s p = prefix p s"

definition endswith :: "string \<Rightarrow> string \<Rightarrow> bool" where
  "endswith s p = suffix p s"

text \<open>
  \<open>s.rsplit('/', 1)[0]\<close>: the part of \<open>s\<close> before its last slash, and all of
  \<open>s\<close> when it has no slash.
\<close>

definition rsplit1_head :: "string \<Rightarrow> string" where
  "rsplit1_head s =
     (if CHR ''/'' \<in> set s
      then rev (tl (dropWhile (\<lambda>c. c \<noteq> CHR ''/'') (rev s)))
      else s)"

text \<open>
  \<open>s.replace(old, new)\<close>: a scan from the left; at each position where \<open>old\<close>
  starts, \<open>new\<close> is emitted and the scan resumes after the occurrence. With an empty
  \<open>old\<close> Python inserts \<open>new\<close> before every character and at the end.
\<close>

function str_replace :: "string \<Rightarrow> string \<Rightarrow> string \<Rightarrow> string" where
  "str_replace [] old new = (if old = [] then new else [])"
| "str_replace (c # cs) old new =
     (if old = [] then new @ c # str_replace cs old new
      else if prefix old (c # cs)
           then new @ str_replace (drop (length old) (c # cs)) old new
      else c # str_replace cs old new)"
  by pat_completeness auto
termination
  by (relation "measure (\<lambda>(s, old, new). length s)") auto

text \<open>
  \<open>str.splitlines()\<close>: the line boundaries of Python among the code points below 256
  are LF, VT, FF, CR, FS, GS, RS and NEL; CR LF counts as one boundary; the boundary is
  not part of the line; a last line without a boundary is kept when it is not empty.
\<close>

definition is_linebreak :: "char \<Rightarrow> bool" where
  "is_linebreak c =
     (c \<in> {CHR 0x0A, CHR 0x0B, CHR 0x0C, CHR 0x0D, CHR 0x1C, CHR 0x1D, CHR 0x1E, CHR 0x85})"

fun splitlines_from :: "string \<Rightarrow> string \<Rightarrow> string list" where
  "splitlines_from cur [] = (if cur = [] then [] else [cur])"
| "splitlines_from cur (c # cs) =
     (if c = CHR 0x0D then
        (case cs of
           d # ds \<Rightarrow> if d = CHR 0x0A then cur # splitlines_from [] ds
                     else cur # splitlines_from [] cs
         | [] \<Rightarrow> cur # splitlines_from [] cs)
      else if is_linebreak c then cur # splitlines_from [] cs
      else splitlines_from (cur @ [c]) cs)"

definition splitlines :: "string \<Rightarrow> string list" where
  "splitlines s = splitlines_from [] s"

text \<open>\<open>str(n)\<close> for a non-negative integer.\<close>

definition digit_char :: "nat \<Rightarrow> char" where
  "digit_char d = char_of (48 + d)"

function str_of_nat :: "nat \<Rightarrow> string" where
  "str_of_nat n = (if n < 10 then [digit_char n] else str_of_nat (n div 10) @ [digit_char (n mod 10)])"
  by pat_completeness auto
termination
  by (relation "measure id") auto

section \<open>Exceptions\<close>

text \<open>
  The handlers of the source distinguish two classes: \<open>aiohttp.ClientError\<close>, caught
  by the two \<open>except aiohttp.ClientError\<close> clauses of \<open>fetch_and_cache_hls\<close>, and
  every other \<open>Exception\<close> (\<open>OSError\<close>, \<open>asyncio.TimeoutError\<close>,
  \<open>UnicodeDecodeError\<close>, the \<open>Exception\<close> raised by \<open>create_stream\<close>), caught only
  by an \<open>except Exception\<close>. Each carries its message, \<open>str(e)\<close>.
\<close>

datatype exn = ClientError string | OtherError string

fun str_of_exn :: "exn \<Rightarrow> string" where
  "str_of_exn (ClientError m) = m"
| "str_of_exn (OtherError m) = m"


section \<open>Paths and the file system\<close>

text \<open>
  A location is the list of the names from the root directory down; the file system is
  an association list from locations to nodes, the root itself being a directory that
  is not listed. A node is a regular file with its contents, a directory, or a
  directory that denies the process search and read permission (\<open>Locked\<close>): the
  nodes below it exist but cannot be reached. There are no symbolic links.
\<close>

type_synonym path = "string list"

datatype node = File string | Dir | Locked

type_synonym filesystem = "(path \<times> node) list"

definition lookup :: "filesystem \<Rightarrow> path \<Rightarrow> node option" where
  "lookup fs loc = (if loc = [] then Some Dir else map_of fs loc)"

definition is_dir :: "filesystem \<Rightarrow> path \<Rightarrow> bool" where
  "is_dir fs loc = (lookup fs loc = Some Dir)"


text \<open>\<open>s.split('/')\<close>.\<close>

fun split_slash_from :: "string \<Rightarrow> string \<Rightarrow> string list" where
  "split_slash_from cur [] = [cur]"
| "split_slash_from cur (c # cs) =
     (if c = CHR ''/'' then cur # split_slash_from [] cs
      else split_slash_from (cur @ [c]) cs)"

definition split_slash :: "string \<Rightarrow> string list" where
  "split_slash s = split_slash_from [] s"

text \<open>\<open>os.path.join(a, b)\<close> of posixpath.\<close>

definition path_join :: "string \<Rightarrow> string \<Rightarrow> string" where
  "path_join a b =
     (if startswith b ''/'' then b
      else if a = [] \<or> endswith a ''/'' then a @ b
      else a @ ''/'' @ b)"

text \<open>
  \<open>os.path.abspath(p)\<close>, that is \<open>normpath(join(cwd, p))\<close>, as a location: empty
  and \<open>.\<close> components are dropped and \<open>..\<close> removes the component before it,
  without looking at the file system. A path that starts with exactly two slashes is
  taken as one that starts with a single slash, as Linux resolves it.
\<close>

fun normpath_from :: "path \<Rightarrow> string list \<Rightarrow> path" where
  "normpath_from cur [] = cur"
| "normpath_from cur (c # cs) =
     (if c = [] \<or> c = ''.'' then normpath_from cur cs
      else if c = ''..'' then normpath_from (butlast cur) cs
      else normpath_from (cur @ [c]) cs)"

definition abspath :: "path \<Rightarrow> string \<Rightarrow> path" where
  "abspath cwd p = normpath_from (if startswith p ''/'' then [] else cwd) (split_slash p)"

text \<open>\<open>os.path.dirname\<close> of an absolute normalised path.\<close>

definition dirname :: "path \<Rightarrow> path" where
  "dirname loc = butlast loc"

text \<open>
  The kernel's path resolution: it walks the components from the working directory (or
  from the root for an absolute path), and every step is taken from a directory that
  can be searched. The walk fails at a missing component, at a file and at a locked
  directory.
\<close>

fun walk :: "filesystem \<Rightarrow> path \<Rightarrow> string list \<Rightarrow> path option" where
  "walk fs cur [] = Some cur"
| "walk fs cur (c # cs) =
     (if \<not> is_dir fs cur then None
      else if c = [] \<or> c = ''.'' then walk fs cur cs
      else if c = ''..'' then walk fs (butlast cur) cs
      else walk fs (cur @ [c]) cs)"

definition resolve :: "path \<Rightarrow> filesystem \<Rightarrow> string \<Rightarrow> path option" where
  "resolve cwd fs p = walk fs (if startswith p ''/'' then [] else cwd) (split_slash p)"

text \<open>
  \<open>os.stat\<close> gives \<open>None\<close> when it raises: the path does not resolve, because a
  component is missing or because a directory on the way is locked, or nothing is at
  the location. \<open>os.path.exists\<close> and \<open>os.path.isfile\<close> are false when
  \<open>os.stat\<close> raises, so they are false for a node below a locked directory.
\<close>

definition stat :: "path \<Rightarrow> filesystem \<Rightarrow> string \<Rightarrow> node option" where
  "stat cwd fs p = (case resolve cwd fs p of None \<Rightarrow> None | Some loc \<Rightarrow> lookup fs loc)"

definition path_exists :: "path \<Rightarrow> filesystem \<Rightarrow> string \<Rightarrow> bool" where
  "path_exists cwd fs p = (stat cwd fs p \<noteq> None)"

definition path_isfile :: "path \<Rightarrow> filesystem \<Rightarrow> string \<Rightarrow> bool" where
  "path_isfile cwd fs p = (case stat cwd fs p of Some (File c) \<Rightarrow> True | _ \<Rightarrow> False)"

text \<open>
  \<open>os.makedirs(p, exist_ok=True)\<close> at a location, the one that
  \<open>os.path.abspath\<close> gives for \<open>p\<close>: every missing directory on the way is
  created; a file on the way raises \<open>OSError\<close>, and so does a locked directory
  that has to be passed.
\<close>

fun mkdirs_from :: "path \<Rightarrow> string list \<Rightarrow> filesystem \<Rightarrow> exn + filesystem" where
  "mkdirs_from pre [] fs = Inr fs"
| "mkdirs_from pre (c # cs) fs =
     (case lookup fs (pre @ [c]) of
        None \<Rightarrow> mkdirs_from (pre @ [c]) cs (AList.update (pre @ [c]) Dir fs)
      | Some Dir \<Rightarrow> mkdirs_from (pre @ [c]) cs fs
      | Some Locked \<Rightarrow>
          if cs = [] then Inr fs else Inl (OtherError ''[Errno 13] Permission denied'')
      | Some (File x) \<Rightarrow> Inl (OtherError ''[Errno 17] File exists''))"

definition makedirs :: "filesystem \<Rightarrow> path \<Rightarrow> exn + filesystem" where
  "makedirs fs loc = mkdirs_from [] loc fs"

text \<open>
  \<open>open(p, "w")\<close> and \<open>open(p, "wb")\<close>: the directory of \<open>p\<close> must exist and
  \<open>p\<close> must not name a directory; the file is created, or emptied when it exists.
  The result is the location of the open file and the file system with the empty file.
\<close>

definition open_write :: "path \<Rightarrow> filesystem \<Rightarrow> string \<Rightarrow> exn + (path \<times> filesystem)" where
  "open_write cwd fs p =
     (let comps = split_slash p; nm = last comps in
      case walk fs (if startswith p ''/'' then [] else cwd) (butlast comps) of
        None \<Rightarrow> Inl (OtherError ''[Errno 2] No such file or directory'')
      | Some par \<Rightarrow>
          if \<not> is_dir fs par then Inl (OtherError ''[Errno 2] No such file or directory'')
          else if nm = [] \<or> nm = ''.'' \<or> nm = ''..'' \<or> is_dir fs (par @ [nm])
                  \<or> lookup fs (par @ [nm]) = Some Locked
               then Inl (OtherError ''[Errno 21] Is a directory'')
          else Inr (par @ [nm], AList.update (par @ [nm]) (File []) fs))"

definition write_file :: "path \<Rightarrow> filesystem \<Rightarrow> string \<Rightarrow> string \<Rightarrow> exn + filesystem" where
  "write_file cwd fs p content =
     (case open_write cwd fs p of
        Inl e \<Rightarrow> Inl e
      | Inr (loc, fs') \<Rightarrow> Inr (AList.update loc (File content) fs'))"

text \<open>\<open>os.listdir\<close> of a location: the names of the nodes directly below it.\<close>

definition children :: "filesystem \<Rightarrow> path \<Rightarrow> string list" where
  "children fs loc = map (\<lambda>(p, n). last p) (filter (\<lambda>(p, n). p \<noteq> [] \<and> butlast p = loc) fs)"

section \<open>The world outside the process\<close>

text \<open>
  \<open>StreamProfile\<close> and \<open>StreamInfo\<close> are the two classes of the source. A response
  of the HTTP client has a status and a body whose reading (\<open>resp.text()\<close>,
  \<open>resp.read()\<close>) either gives the payload or raises.
\<close>

record StreamProfile =
  name :: string
  width :: int
  height :: int
  bitrate :: int
  url :: "string option"

record StreamInfo =
  info_id :: string
  info_name :: string
  ingest :: string
  playback :: "StreamProfile list"

record response =
  status :: nat
  payload :: "exn + string"

text \<open>
  The JSON object that the stream API answers with: \<open>create_stream\<close> reads five keys
  with \<open>data.get\<close> and \<open>"playbackId" in data\<close>, so each may be absent.
\<close>

record profile_json =
  pj_name :: string
  pj_width :: int
  pj_height :: int
  pj_bitrate :: int

record stream_json =
  j_id :: "string option"
  j_name :: "string option"
  j_rtmpIngestUrl :: "string option"
  j_playbackId :: "string option"
  j_profiles :: "profile_json list option"

record api_response =
  api_status :: nat
  api_text :: "exn + string"
  api_json :: "exn + stream_json"

text \<open>
  Everything the code asks of its environment: the module variable \<open>CACHE_ENABLED\<close>
  (set by the pipeline before a session), the working directory, the answer of the
  network to the n-th GET of the process, the error (if any) that reading a location
  of the disk raises, the answer to the POST that creates the stream, the outcome of
  the ffmpeg subprocess (an exception or its return code), and whether starting and
  cleaning up the local web server raise.
\<close>

record world =
  CACHE_ENABLED :: bool
  cwd :: path
  http_get :: "nat \<Rightarrow> string \<Rightarrow> exn + response"
  read_error :: "path \<Rightarrow> string option"
  api_post :: "exn + api_response"
  ffmpeg :: "exn + int"
  site_start :: "exn option"
  runner_cleanup :: "exn option"

text \<open>The mutable state: the disk and the trace of the GET requests issued so far.\<close>

record state =
  files :: filesystem
  requests :: "string list"

definition LOCAL_CACHE_DIR :: string where
  "LOCAL_CACHE_DIR = ''./cache/livepeer''"

definition LOCAL_PLAYBACK_URL_BASE :: string where
  "LOCAL_PLAYBACK_URL_BASE = ''http://localhost:8080/cache/''"

section \<open>fetch\_and\_cache\_hls\<close>

text \<open>
  \<open>except aiohttp.ClientError\<close>: a client error ends the \<open>try\<close> block normally,
  any other exception goes on to the caller.
\<close>

fun except_ClientError :: "exn \<Rightarrow> exn option" where
  "except_ClientError (ClientError m) = None"
| "except_ClientError (OtherError m) = Some (OtherError m)"

text \<open>
  The body of the loop over the lines for one reference line (source lines 192 to 208):
  the directories of the local path are created, and the segment is requested only
  when nothing exists at the local path. The file is opened for writing before the body
  of the response is read. The result is the exception that leaves the function, if any,
  and the new state.
\<close>

definition fetch_segment :: "world \<Rightarrow> string \<Rightarrow> string \<Rightarrow> state \<Rightarrow> exn option \<times> state" where
  "fetch_segment w segment_url local_segment_path st =
     (case makedirs (files st) (dirname (abspath (cwd w) local_segment_path)) of
        Inl e \<Rightarrow> (Some e, st)
      | Inr fs1 \<Rightarrow>
          if path_exists (cwd w) fs1 local_segment_path then (None, st\<lparr>files := fs1\<rparr>)
          else
            let st2 = \<lparr>files = fs1, requests = requests st @ [segment_url]\<rparr> in
            (case http_get w (length (requests st)) segment_url of
               Inl e \<Rightarrow> (except_ClientError e, st2)
             | Inr segment_resp \<Rightarrow>
                 if status segment_resp = 200 then
                   (case open_write (cwd w) fs1 local_segment_path of
                      Inl e \<Rightarrow> (except_ClientError e, st2)
                    | Inr (loc, fs2) \<Rightarrow>
                        (case payload segment_resp of
                           Inl e \<Rightarrow> (except_ClientError e, st2\<lparr>files := fs2\<rparr>)
                         | Inr data \<Rightarrow>
                             (None, st2\<lparr>files := AList.update loc (File data) fs2\<rparr>)))
                 else (None, st2)))"

text \<open>The loop over \<open>playlist_content.splitlines()\<close> (source lines 186 to 208).\<close>

fun download_segments ::
  "world \<Rightarrow> string \<Rightarrow> string \<Rightarrow> string list \<Rightarrow> state \<Rightarrow> exn option \<times> state" where
  "download_segments w base_url profile_dir [] st = (None, st)"
| "download_segments w base_url profile_dir (line # rest) st =
     (if endswith line ''.ts'' \<or> endswith line ''.m3u8'' then
        (if startswith line ''#'' then download_segments w base_url profile_dir rest st
         else
           (case fetch_segment w (base_url @ ''/'' @ line) (path_join profile_dir line) st of
              (Some e, st') \<Rightarrow> (Some e, st')
            | (None, st') \<Rightarrow> download_segments w base_url profile_dir rest st'))
      else download_segments w base_url profile_dir rest st)"

text \<open>The text written to the local playlist (source lines 174 to 178).\<close>

definition modified_content :: "string \<Rightarrow> string \<Rightarrow> string \<Rightarrow> string" where
  "modified_content playlist_url profile_name playlist_content =
     str_replace playlist_content (rsplit1_head playlist_url @ ''/'')
       (LOCAL_PLAYBACK_URL_BASE @ profile_name @ ''/'')"

type_synonym url_map = "(string \<times> string) list"

text \<open>
  The body of the loop over the profiles (source lines 156 to 212). An exception
  raised inside the \<open>try\<close> passes through the outer \<open>except aiohttp.ClientError\<close>.
\<close>

definition cache_profile ::
  "world \<Rightarrow> StreamProfile \<Rightarrow> state \<times> url_map \<Rightarrow> exn option \<times> state \<times> url_map" where
  "cache_profile w profile acc =
     (case acc of (st, local_urls) \<Rightarrow>
      (case url profile of
         None \<Rightarrow> (None, st, local_urls)
       | Some playlist_url \<Rightarrow>
           if playlist_url = [] then (None, st, local_urls)
           else
             let profile_dir = path_join LOCAL_CACHE_DIR (name profile) in
             (case makedirs (files st) (abspath (cwd w) profile_dir) of
                Inl e \<Rightarrow> (except_ClientError e, st, local_urls)
              | Inr fs1 \<Rightarrow>
                  let st1 = \<lparr>files = fs1, requests = requests st @ [playlist_url]\<rparr> in
                  (case http_get w (length (requests st)) playlist_url of
                     Inl e \<Rightarrow> (except_ClientError e, st1, local_urls)
                   | Inr resp \<Rightarrow>
                       if status resp = 200 then
                         (case payload resp of
                            Inl e \<Rightarrow> (except_ClientError e, st1, local_urls)
                          | Inr playlist_content \<Rightarrow>
                              let local_playlist_path = path_join profile_dir ''index.m3u8'';
                                  base_url = rsplit1_head playlist_url
                              in
                              (case write_file (cwd w) fs1 local_playlist_path
                                      (modified_content playlist_url (name profile) playlist_content) of
                                 Inl e \<Rightarrow> (except_ClientError e, st1, local_urls)
                               | Inr fs2 \<Rightarrow>
                                   let local_urls' =
                                         AList.update (name profile)
                                           (LOCAL_PLAYBACK_URL_BASE @ name profile @ ''/index.m3u8'')
                                           local_urls
                                   in
                                   (case download_segments w base_url profile_dir
                                           (splitlines playlist_content) (st1\<lparr>files := fs2\<rparr>) of
                                      (Some e, st') \<Rightarrow> (except_ClientError e, st', local_urls')
                                    | (None, st') \<Rightarrow> (None, st', local_urls'))))
                       else (None, st1, local_urls)))))"

fun cache_profiles ::
  "world \<Rightarrow> StreamProfile list \<Rightarrow> state \<times> url_map \<Rightarrow> (exn + url_map) \<times> state" where
  "cache_profiles w [] acc = (Inr (snd acc), fst acc)"
| "cache_profiles w (profile # rest) acc =
     (case cache_profile w profile acc of
        (Some e, st', local_urls') \<Rightarrow> (Inl e, st')
      | (None, st', local_urls') \<Rightarrow> cache_profiles w rest (st', local_urls'))"

definition fetch_and_cache_hls ::
  "world \<Rightarrow> StreamProfile list \<Rightarrow> state \<Rightarrow> (exn + url_map) \<times> state" where
  "fetch_and_cache_hls w playback_urls st =
     (if \<not> CACHE_ENABLED w then (Inr [], st)
      else if \<not> path_exists (cwd w) (files st) LOCAL_CACHE_DIR then
        (case makedirs (files st) (abspath (cwd w) LOCAL_CACHE_DIR) of
           Inl e \<Rightarrow> (Inl e, st)
         | Inr fs1 \<Rightarrow> cache_profiles w playback_urls (st\<lparr>files := fs1\<rparr>, []))
      else cache_profiles w playback_urls (st, []))"

section \<open>The local content server\<close>

text \<open>
  Reading a file and listing a directory raise when the path does not resolve, when the
  environment reports an error for the location (permissions of the node itself,
  input/output), when the node is of the other kind, and when a locked directory is
  listed.
\<close>

definition read_file :: "world \<Rightarrow> filesystem \<Rightarrow> string \<Rightarrow> exn + string" where
  "read_file w fs p =
     (case resolve (cwd w) fs p of
        None \<Rightarrow> Inl (OtherError ''[Errno 2] No such file or directory'')
      | Some loc \<Rightarrow>
          (case read_error w loc of
             Some m \<Rightarrow> Inl (OtherError m)
           | None \<Rightarrow>
               (case lookup fs loc of
                  None \<Rightarrow> Inl (OtherError ''[Errno 2] No such file or directory'')
                | Some Dir \<Rightarrow> Inl (OtherError ''[Errno 21] Is a directory'')
                | Some Locked \<Rightarrow> Inl (OtherError ''[Errno 21] Is a directory'')
                | Some (File content) \<Rightarrow> Inr content)))"

definition listdir :: "world \<Rightarrow> filesystem \<Rightarrow> string \<Rightarrow> exn + string list" where
  "listdir w fs p =
     (case resolve (cwd w) fs p of
        None \<Rightarrow> Inl (OtherError ''[Errno 2] No such file or directory'')
      | Some loc \<Rightarrow>
          (case read_error w loc of
             Some m \<Rightarrow> Inl (OtherError m)
           | None \<Rightarrow>
               (case lookup fs loc of
                  None \<Rightarrow> Inl (OtherError ''[Errno 2] No such file or directory'')
                | Some (File content) \<Rightarrow> Inl (OtherError ''[Errno 20] Not a directory'')
                | Some Locked \<Rightarrow> Inl (OtherError ''[Errno 13] Permission denied'')
                | Some Dir \<Rightarrow> Inr (children fs loc))))"

record http_response =
  code :: nat
  content_type :: string
  body :: string

text \<open>The loop that builds the directory listing (source lines 240 to 243).\<close>

definition listing_item :: "string \<Rightarrow> string" where
  "listing_item file =
     ''<li><a href='' @ [CHR 0x22] @ file @ [CHR 0x22] @ ''>'' @ file @ ''</a></li>''"

definition listing_html :: "string list \<Rightarrow> string" where
  "listing_html files_in_dir =
     fold (\<lambda>file html. html @ listing_item file) files_in_dir ''<html><body><ul>''
       @ ''</ul></body></html>''"

text \<open>
  \<open>handle\<close>, the only route of the server, for the \<open>filename\<close> part of a GET of
  \<open>/cache/{filename}\<close>. \<open>web.Response\<close> gives a response built from \<open>text\<close> the
  content type \<open>text/plain\<close> when none is passed.
\<close>

definition handle :: "world \<Rightarrow> filesystem \<Rightarrow> string \<Rightarrow> http_response" where
  "handle w fs filename =
     (let filepath = path_join LOCAL_CACHE_DIR filename in
      if path_exists (cwd w) fs filepath then
        (if path_isfile (cwd w) fs filepath then
           (case read_file w fs filepath of
              Inl e \<Rightarrow> \<lparr>code = 500, content_type = ''text/plain'', body = str_of_exn e\<rparr>
            | Inr content \<Rightarrow>
                \<lparr>code = 200,
                 content_type = (if endswith filepath ''.m3u8''
                                 then ''application/vnd.apple.mpegurl'' else ''video/MP2T''),
                 body = content\<rparr>)
         else
           (case listdir w fs filepath of
              Inl e \<Rightarrow> \<lparr>code = 500, content_type = ''text/plain'', body = str_of_exn e\<rparr>
            | Inr files_in_dir \<Rightarrow>
                \<lparr>code = 200, content_type = ''text/html'', body = listing_html files_in_dir\<rparr>))
      else \<lparr>code = 404, content_type = ''text/plain'', body = ''File not found''\<rparr>)"

text \<open>
  \<open>serve_cached_content\<close>: no server when caching is disabled; otherwise the runner,
  unless starting the site raises. \<open>True\<close> stands for the runner, \<open>False\<close> for
  \<open>None\<close>.
\<close>

definition serve_cached_content :: "world \<Rightarrow> exn + bool" where
  "serve_cached_content w =
     (if \<not> CACHE_ENABLED w then Inr False
      else (case site_start w of Some e \<Rightarrow> Inl e | None \<Rightarrow> Inr True))"

section \<open>Stream allocation and push\<close>

text \<open>\<open>LivepeerClient.create_stream\<close> (source lines 44 to 99).\<close>

definition profile_of_json :: "profile_json \<Rightarrow> StreamProfile" where
  "profile_of_json pj =
     \<lparr>name = pj_name pj, width = pj_width pj, height = pj_height pj,
      bitrate = pj_bitrate pj, url = None\<rparr>"

definition create_stream :: "world \<Rightarrow> exn + StreamInfo" where
  "create_stream w =
     (case api_post w of
        Inl e \<Rightarrow> Inl e
      | Inr response \<Rightarrow>
          if api_status response \<noteq> 200 then
            (case api_text response of
               Inl e \<Rightarrow> Inl e
             | Inr error_text \<Rightarrow>
                 Inl (OtherError (''Failed to create stream: '' @ str_of_nat (api_status response)
                                    @ '' - '' @ error_text)))
          else
            (case api_json response of
               Inl e \<Rightarrow> Inl e
             | Inr data \<Rightarrow>
                 let stream_profiles =
                       map profile_of_json (case j_profiles data of None \<Rightarrow> [] | Some ps \<Rightarrow> ps);
                     playback_urls =
                       (case j_playbackId data of
                          None \<Rightarrow> []
                        | Some playback_id \<Rightarrow>
                            map (\<lambda>profile. profile\<lparr>url :=
                                   Some (''https://cdn.livepeer.studio/hls/'' @ playback_id @ ''/''
                                           @ name profile @ ''/index.m3u8'')\<rparr>)
                              stream_profiles)
                 in
                 Inr \<lparr>info_id = (case j_id data of None \<Rightarrow> [] | Some x \<Rightarrow> x),
                      info_name = (case j_name data of None \<Rightarrow> [] | Some x \<Rightarrow> x),
                      ingest = (case j_rtmpIngestUrl data of None \<Rightarrow> [] | Some x \<Rightarrow> x),
                      playback = playback_urls\<rparr>))"

text \<open>
  \<open>push_to_livepeer\<close>: false when the video file is missing, when the subprocess
  raises, and when ffmpeg returns a code other than 0.
\<close>

definition push_to_livepeer :: "world \<Rightarrow> filesystem \<Rightarrow> string \<Rightarrow> string \<Rightarrow> bool" where
  "push_to_livepeer w fs ingest_url video_path =
     (if \<not> path_exists (cwd w) fs video_path then False
      else (case ffmpeg w of Inl e \<Rightarrow> False | Inr returncode \<Rightarrow> returncode = 0))"

section \<open>The session: stream\_video\_to\_livepeer\<close>

text \<open>The dictionary \<open>result\<close>; the key \<open>error\<close> is present only after an exception.\<close>

record result =
  success :: bool
  stream_id :: "string option"
  ingest_url :: "string option"
  playback_urls :: "(string \<times> string option) list"
  local_playback_urls :: url_map
  error :: "string option"

definition initial_result :: result where
  "initial_result =
     \<lparr>success = False, stream_id = None, ingest_url = None, playback_urls = [],
      local_playback_urls = [], error = None\<rparr>"

text \<open>
  The push task and the cache task run concurrently and share nothing but the disk; the
  push reads only the video file, so the session is modelled with the push evaluated
  when its task is created. Its value \<open>push_success\<close> is awaited and then only
  printed. The two \<open>asyncio.sleep\<close> calls take time and change nothing.
\<close>

definition stream_video_to_livepeer :: "world \<Rightarrow> string \<Rightarrow> state \<Rightarrow> result \<times> state" where
  "stream_video_to_livepeer w video_path st =
     (case create_stream w of
        Inl e \<Rightarrow> (initial_result\<lparr>error := Some (str_of_exn e)\<rparr>, st)
      | Inr stream \<Rightarrow>
          let result1 =
                initial_result
                  \<lparr>playback_urls :=
                     fold (\<lambda>profile d. AList.update (name profile) (url profile) d) (playback stream) [],
                   stream_id := Some (info_id stream),
                   ingest_url := Some (ingest stream),
                   success := True\<rparr>;
              push_success = push_to_livepeer w (files st) (ingest stream) video_path
          in
          (case serve_cached_content w of
             Inl e \<Rightarrow> (result1\<lparr>error := Some (str_of_exn e)\<rparr>, st)
           | Inr server_runner \<Rightarrow>
               (case fetch_and_cache_hls w (playback stream) st of
                  (Inl e, st') \<Rightarrow> (result1\<lparr>error := Some (str_of_exn e)\<rparr>, st')
                | (Inr local_urls, st') \<Rightarrow>
                    let result2 = result1\<lparr>local_playback_urls := local_urls\<rparr> in
                    if server_runner then
                      (case runner_cleanup w of
                         Some e \<Rightarrow> (result2\<lparr>error := Some (str_of_exn e)\<rparr>, st')
                       | None \<Rightarrow> (result2, st'))
                    else (result2, st'))))"

section \<open>The playlist rewriter of the specification\<close>

text \<open>
  The specification describes a rewriter that returns the list of the references of a
  playlist: the lines that do not start with \<open>#\<close> and end in \<open>.ts\<close> or
  \<open>.m3u8\<close>, each with its relative path and its resolved remote URL. The source has
  no such list: its loop over the lines fetches as it goes. These definitions follow the
  words of the specification, to be compared with \<open>download_segments\<close>.
\<close>

record reference =
  relativePath :: string
  resolvedRemoteURL :: string

definition is_reference :: "string \<Rightarrow> bool" where
  "is_reference line =
     (\<not> startswith line ''#'' \<and> (endswith line ''.ts'' \<or> endswith line ''.m3u8''))"

definition playlist_references :: "string \<Rightarrow> string \<Rightarrow> reference list" where
  "playlist_references playlist_url playlist_content =
     map (\<lambda>line. \<lparr>relativePath = line,
                   resolvedRemoteURL = rsplit1_head playlist_url @ ''/'' @ line\<rparr>)
       (filter is_reference (splitlines playlist_content))"

fun fetch_references ::
  "world \<Rightarrow> string \<Rightarrow> reference list \<Rightarrow> state \<Rightarrow> exn option \<times> state" where
  "fetch_references w profile_dir [] st = (None, st)"
| "fetch_references w profile_dir (r # rs) st =
     (case fetch_segment w (resolvedRemoteURL r) (path_join profile_dir (relativePath r)) st of
        (Some e, st') \<Rightarrow> (Some e, st')
      | (None, st') \<Rightarrow> fetch_references w profile_dir rs st')"







section \<open>Example worlds\<close>

text \<open>
  A working directory \<open>/srv\<close> holding a file \<open>settings.env\<close>, one profile
  \<open>480p\<close> whose playlist lists three segments, and networks that answer every request,
  fail one segment with a status 500, drop the connection while a body is read, or time
  out on a playlist.
\<close>

definition ex_playlist_url :: string where
  "ex_playlist_url = ''https://cdn.livepeer.studio/hls/abc/480p/index.m3u8''"

definition ex_playlist :: string where
  "ex_playlist =
     ''#EXTM3U'' @ [CHR 0x0A] @ ''#EXT-X-VERSION:3'' @ [CHR 0x0A] @ ''seg0.ts'' @ [CHR 0x0A]
       @ ''seg1.ts'' @ [CHR 0x0A] @ ''seg2.ts'' @ [CHR 0x0A]"

definition ex_profile :: StreamProfile where
  "ex_profile =
     \<lparr>name = ''480p'', width = 854, height = 480, bitrate = 1000000,
      url = Some ex_playlist_url\<rparr>"


definition ex_net_ok :: "nat \<Rightarrow> string \<Rightarrow> exn + response" where
  "ex_net_ok n u =
     (if u = ex_playlist_url then Inr \<lparr>status = 200, payload = Inr ex_playlist\<rparr>
      else Inr \<lparr>status = 200, payload = Inr ''DATA''\<rparr>)"


definition ex_net_truncated :: "nat \<Rightarrow> string \<Rightarrow> exn + response" where
  "ex_net_truncated n u =
     (if u = ''https://cdn.livepeer.studio/hls/abc/480p/seg1.ts''
      then Inr \<lparr>status = 200, payload = Inl (ClientError ''Response payload is not completed'')\<rparr>
      else ex_net_ok n u)"

definition ex_net_timeout :: "nat \<Rightarrow> string \<Rightarrow> exn + response" where
  "ex_net_timeout n u =
     (if u = ex_playlist_url then Inl (OtherError ''TimeoutError'') else ex_net_ok n u)"

definition ex_json :: stream_json where
  "ex_json =
     \<lparr>j_id = Some ''stream-1'', j_name = Some ''decentralized-video-stream'',
      j_rtmpIngestUrl = Some ''rtmp://rtmp.example/live/key'', j_playbackId = Some ''abc'',
      j_profiles = Some [\<lparr>pj_name = ''480p'', pj_width = 854, pj_height = 480,
                           pj_bitrate = 1000000\<rparr>]\<rparr>"

definition ex_world :: "(nat \<Rightarrow> string \<Rightarrow> exn + response) \<Rightarrow> world" where
  "ex_world net =
     \<lparr>CACHE_ENABLED = True, cwd = [''srv''], http_get = net, read_error = (\<lambda>loc. None),
      api_post = Inr \<lparr>api_status = 200, api_text = Inr [], api_json = Inr ex_json\<rparr>,
      ffmpeg = Inr 0, site_start = None, runner_cleanup = None\<rparr>"

definition ex_disk :: filesystem where
  "ex_disk =
     [([''srv''], Dir), ([''srv'', ''settings.env''], File ''LIVEPEER_API_KEY=secret''),
      ([''srv'', ''video.mp4''], File ''VIDEO'')]"

definition ex_state :: state where
  "ex_state = \<lparr>files = ex_disk, requests = []\<rparr>"

definition ex_cache_dir :: path where
  "ex_cache_dir = [''srv'', ''cache'', ''livepeer'', ''480p'']"

text \<open>The disk after a fill in which every fetch succeeded.\<close>

definition ex_disk_cached :: filesystem where
  "ex_disk_cached =
     ex_disk @
     [([''srv'', ''cache''], Dir), ([''srv'', ''cache'', ''livepeer''], Dir),
      (ex_cache_dir, Dir),
      (ex_cache_dir @ [''index.m3u8''], File ex_playlist),
      (ex_cache_dir @ [''seg0.ts''], File ''DATA''),
      (ex_cache_dir @ [''seg1.ts''], File ''DATA''),
      (ex_cache_dir @ [''seg2.ts''], File ''DATA'')]"

text \<open>A playlist URL and an encryption-key line whose URI lies under its origin.\<close>

definition ex_origin_url :: string where
  "ex_origin_url = ''https://cdn.example/hls/abc/720p/index.m3u8''"

definition ex_key_line :: string where
  "ex_key_line =
     ''#EXT-X-KEY:METHOD=AES-128,URI='' @ [CHR 0x22] @ ''https://cdn.example/hls/abc/720p/key.bin''
       @ [CHR 0x22]"

definition ex_key_line_rewritten :: string where
  "ex_key_line_rewritten =
     ''#EXT-X-KEY:METHOD=AES-128,URI='' @ [CHR 0x22] @ ''http://localhost:8080/cache/720p/key.bin''
       @ [CHR 0x22]"


definition ex_disk_dirs :: filesystem where
  "ex_disk_dirs =
     ex_disk @
     [([''srv'', ''cache''], Dir), ([''srv'', ''cache'', ''livepeer''], Dir), (ex_cache_dir, Dir)]"







text \<open>The result of a session in which every stage succeeded.\<close>

definition ex_result :: result where
  "ex_result =
     \<lparr>success = True, stream_id = Some ''stream-1'',
      ingest_url = Some ''rtmp://rtmp.example/live/key'',
      playback_urls = [(''480p'', Some ex_playlist_url)],
      local_playback_urls = [(''480p'', ''http://localhost:8080/cache/480p/index.m3u8'')],
      error = None\<rparr>"

section \<open>Facts about paths and the file system\<close>










lemma split_slash_from_noslash:
  "CHR ''/'' \<notin> set s \<Longrightarrow> split_slash_from cur s = [cur @ s]"
  by (induction s arbitrary: cur) auto






lemmas ex_eval = stat_def resolve_def startswith_def endswith_def split_slash_def is_dir_def lookup_def
        ex_disk_cached_def ex_disk_def ex_cache_dir_def path_join_def LOCAL_CACHE_DIR_def ex_world_def
        children_def listing_item_def ex_playlist_def

section \<open>Facts about exceptions\<close>









section \<open>Facts about the string primitives\<close>

lemma rsplit1_head_split:
  assumes "CHR ''/'' \<in> set u"
  shows "\<exists>seg. u = rsplit1_head u @ ''/'' @ seg \<and> CHR ''/'' \<notin> set seg"
proof -
  let ?P = "\<lambda>c. c \<noteq> CHR ''/''"
  let ?tw = "takeWhile ?P (rev u)" and ?dw = "dropWhile ?P (rev u)"
  from assms have ne: "?dw \<noteq> []" by (simp add: dropWhile_eq_Nil_conv) 
  then have hd: "hd ?dw = CHR ''/''" using hd_dropWhile[of ?P "rev u"] by simp
  with ne have dw: "?dw = CHR ''/'' # tl ?dw" by (cases ?dw) auto
  have "rev u = ?tw @ ?dw" by simp
  then have "rev u = ?tw @ CHR ''/'' # tl ?dw" using dw by simp
  then have "u = rev (tl ?dw) @ ''/'' @ rev ?tw"
    by (metis append_Cons append_Nil append_assoc rev.simps(2) rev_append rev_rev_ident)
  moreover have "CHR ''/'' \<notin> set (rev ?tw)"
    using set_takeWhileD[of "CHR ''/''" ?P "rev u"] by auto
  ultimately show ?thesis using assms by (auto simp: rsplit1_head_def)
qed

lemma str_replace_absent:
  "old \<noteq> [] \<Longrightarrow> \<not> sublist old s \<Longrightarrow> str_replace s old new = s"
proof (induction s)
  case Nil
  then show ?case by simp
next
  case (Cons c cs)
  from Cons.prems(2) have "\<not> prefix old (c # cs)" "\<not> sublist old cs"
    by (auto simp: sublist_Cons_right)
  with Cons show ?case by simp
qed

lemma str_replace_first:
  assumes "old \<noteq> []"
  shows "\<not> sublist old (u @ butlast old) \<Longrightarrow>
         str_replace (u @ old @ v) old new = u @ new @ str_replace v old new"
proof (induction u)
  case Nil
  from assms obtain c cs where "old @ v = c # cs" by (cases old) auto
  moreover have "prefix old (old @ v)" by simp
  ultimately show ?case using assms by (metis append_Nil append_eq_conv_conj str_replace.simps(2))
next
  case (Cons x u)
  have np: "\<not> prefix old (x # u @ old @ v)"
  proof
    assume p: "prefix old (x # u @ old @ v)"
    have e: "x # u @ old @ v = ((x # u) @ butlast old) @ ([last old] @ v)"
      using assms by simp
    have "prefix ((x # u) @ butlast old) (x # u @ old @ v)" unfolding e by simp
    moreover have "length old \<le> length ((x # u) @ butlast old)" by simp
    ultimately have "prefix old ((x # u) @ butlast old)"
      using p prefix_length_prefix by blast
    with Cons.prems show False by auto
  qed
  from Cons.prems have "\<not> sublist old (u @ butlast old)" by (auto simp: sublist_Cons_right)
  from Cons.IH[OF this] np assms show ?case by simp
qed

lemma str_replace_length_le:
  "old \<noteq> [] \<Longrightarrow> length new \<le> length old \<Longrightarrow> length (str_replace s old new) \<le> length s"
proof (induction s old new rule: str_replace.induct)
  case (1 old new)
  then show ?case by simp
next
  case (2 c cs old new)
  show ?case
  proof (cases "prefix old (c # cs)")
    case True
    then have "length old \<le> length (c # cs)" by (rule prefix_length_le)
    with 2(2)[OF 2(4) True 2(4) 2(5)] True 2(4,5) show ?thesis by simp
  next
    case False
    with 2(3)[OF 2(4) False 2(4) 2(5)] 2(4) show ?thesis by simp
  qed
qed

lemma str_replace_length_ge:
  "old \<noteq> [] \<Longrightarrow> length old \<le> length new \<Longrightarrow> length s \<le> length (str_replace s old new)"
proof (induction s old new rule: str_replace.induct)
  case (1 old new)
  then show ?case by simp
next
  case (2 c cs old new)
  show ?case
  proof (cases "prefix old (c # cs)")
    case True
    then have "length old \<le> length (c # cs)" by (rule prefix_length_le)
    with 2(2)[OF 2(4) True 2(4) 2(5)] True 2(4,5) show ?thesis by simp
  next
    case False
    with 2(3)[OF 2(4) False 2(4) 2(5)] 2(4) show ?thesis by simp
  qed
qed

lemma str_replace_present:
  "old \<noteq> [] \<Longrightarrow> new \<noteq> old \<Longrightarrow> sublist old s \<Longrightarrow> str_replace s old new \<noteq> s"
proof (induction s old new rule: str_replace.induct)
  case (1 old new)
  then show ?case by simp
next
  case (2 c cs old new)
  show ?case
  proof (cases "prefix old (c # cs)")
    case True
    then obtain d where d: "c # cs = old @ d" by (auto simp: prefix_def)
    then have dd: "drop (length old) (c # cs) = d" by (metis append_eq_conv_conj)
    have r: "str_replace (c # cs) old new = new @ str_replace d old new"
      using True 2(4) dd by simp
    show ?thesis
    proof
      assume "str_replace (c # cs) old new = c # cs"
      with r d have eq: "new @ str_replace d old new = old @ d" by simp
      then have l: "length new + length (str_replace d old new) = length old + length d"
        by (metis length_append)
      consider "length new = length old" | "length new < length old" | "length old < length new"
        by linarith
      then show False
      proof cases
        case 1
        with eq have "new = old" by simp
        with 2(5) show False by simp
      next
        case 2
        with str_replace_length_le[of old new d] \<open>old \<noteq> []\<close> l show False by simp
      next
        case 3
        with str_replace_length_ge[of old new d] \<open>old \<noteq> []\<close> l show False by simp
      qed
    qed
  next
    case False
    with 2(6) have "sublist old cs" by (simp add: sublist_Cons_right)
    from 2(3)[OF 2(4) False 2(4) 2(5) this] False 2(4) show ?thesis by simp
  qed
qed

section \<open>The playlist rewriter\<close>

lemma download_segments_as_references:
  "download_segments w b d ls st
     = fetch_references w d
         (map (\<lambda>line. \<lparr>relativePath = line, resolvedRemoteURL = b @ ''/'' @ line\<rparr>)
            (filter is_reference ls)) st"
  by (induction ls arbitrary: st) (auto simp: is_reference_def split: prod.split option.split)

lemma download_segments_skip_directives:
  "download_segments w b d ls st
     = download_segments w b d (filter (\<lambda>line. \<not> startswith line ''#'') ls) st"
  by (induction ls arbitrary: st) (auto split: prod.split option.split)

text \<open>
  Claim C1. For every playlist URL and playlist text: the origin base is the URL up to
  its last slash, the final segment (which has no slash) removed; the text written to
  the local playlist is the text in which the occurrences of the origin base followed by
  a slash, found by a scan from the left, are replaced by
  \<open>LOCAL_PLAYBACK_URL_BASE\<close>, the profile name and a slash (a text without an
  occurrence is unchanged; the first occurrence is replaced and the scan goes on after
  it); and the loop over the lines fetches exactly the references of the specification,
  in the order of the playlist: the lines that do not start with \<open>#\<close> and end in
  \<open>.ts\<close> or \<open>.m3u8\<close>, each with the line as its relative path and the origin
  base, a slash and the line as its remote URL.
\<close>

theorem playlist_rewrite:
  "(CHR ''/'' \<in> set playlist_url \<longrightarrow>
      (\<exists>last_segment. playlist_url = rsplit1_head playlist_url @ ''/'' @ last_segment
                       \<and> CHR ''/'' \<notin> set last_segment))
   \<and> (\<not> sublist (rsplit1_head playlist_url @ ''/'') text \<longrightarrow>
        modified_content playlist_url profile_name text = text)
   \<and> (\<not> sublist (rsplit1_head playlist_url @ ''/'') (before @ rsplit1_head playlist_url) \<longrightarrow>
        modified_content playlist_url profile_name (before @ (rsplit1_head playlist_url @ ''/'') @ rest)
          = before @ (LOCAL_PLAYBACK_URL_BASE @ profile_name @ ''/'')
              @ modified_content playlist_url profile_name rest)
   \<and> download_segments w (rsplit1_head playlist_url) profile_dir (splitlines playlist_content) st
       = fetch_references w profile_dir (playlist_references playlist_url playlist_content) st"
proof -
  have ne: "rsplit1_head playlist_url @ ''/'' \<noteq> []" by simp
  have a: "CHR ''/'' \<in> set playlist_url \<longrightarrow>
      (\<exists>last_segment. playlist_url = rsplit1_head playlist_url @ ''/'' @ last_segment
                       \<and> CHR ''/'' \<notin> set last_segment)"
    using rsplit1_head_split by blast
  have b: "\<not> sublist (rsplit1_head playlist_url @ ''/'') text \<longrightarrow>
        modified_content playlist_url profile_name text = text"
    unfolding modified_content_def using str_replace_absent[OF ne] by blast
  have c: "\<not> sublist (rsplit1_head playlist_url @ ''/'') (before @ rsplit1_head playlist_url) \<longrightarrow>
        modified_content playlist_url profile_name (before @ (rsplit1_head playlist_url @ ''/'') @ rest)
          = before @ (LOCAL_PLAYBACK_URL_BASE @ profile_name @ ''/'')
              @ modified_content playlist_url profile_name rest"
    unfolding modified_content_def
    using str_replace_first[OF ne, of before rest "LOCAL_PLAYBACK_URL_BASE @ profile_name @ ''/''"]
    by simp
  have d: "download_segments w (rsplit1_head playlist_url) profile_dir (splitlines playlist_content) st
       = fetch_references w profile_dir (playlist_references playlist_url playlist_content) st"
    unfolding playlist_references_def by (rule download_segments_as_references)
  from a b c d show ?thesis by blast
qed

theorem playlist_rewrite_witness:
  "ex_origin_url = rsplit1_head ex_origin_url @ ''/'' @ ''index.m3u8''
   \<and> rsplit1_head ex_origin_url = ''https://cdn.example/hls/abc/720p''
   \<and> modified_content ex_origin_url ''720p'' ex_playlist = ex_playlist
   \<and> modified_content ex_origin_url ''720p''
        (''#EXTM3U'' @ [CHR 0x0A] @ ''https://cdn.example/hls/abc/720p/'' @ ''seg0.ts'')
       = ''#EXTM3U'' @ [CHR 0x0A] @ ''http://localhost:8080/cache/720p/'' @ ''seg0.ts''
   \<and> playlist_references ex_origin_url ex_playlist
       = [\<lparr>relativePath = ''seg0.ts'', resolvedRemoteURL = ''https://cdn.example/hls/abc/720p/seg0.ts''\<rparr>,
          \<lparr>relativePath = ''seg1.ts'', resolvedRemoteURL = ''https://cdn.example/hls/abc/720p/seg1.ts''\<rparr>,
          \<lparr>relativePath = ''seg2.ts'', resolvedRemoteURL = ''https://cdn.example/hls/abc/720p/seg2.ts''\<rparr>]
   \<and> download_segments (ex_world ex_net_ok) (rsplit1_head ex_origin_url) ''./cache/livepeer/720p''
        (splitlines ex_playlist) ex_state
       = fetch_references (ex_world ex_net_ok) ''./cache/livepeer/720p''
           (playlist_references ex_origin_url ex_playlist) ex_state"
proof -
  have h: "rsplit1_head ex_origin_url = ''https://cdn.example/hls/abc/720p''" by code_simp
  have s: "CHR ''/'' \<in> set ex_origin_url" by code_simp
  have n1: "\<not> sublist (rsplit1_head ex_origin_url @ ''/'') ex_playlist" by code_simp
  have n2: "\<not> sublist (rsplit1_head ex_origin_url @ ''/'')
              ((''#EXTM3U'' @ [CHR 0x0A]) @ rsplit1_head ex_origin_url)" by code_simp
  have n3: "\<not> sublist (rsplit1_head ex_origin_url @ ''/'') ''seg0.ts''" by code_simp
  have r: "playlist_references ex_origin_url ex_playlist
       = [\<lparr>relativePath = ''seg0.ts'', resolvedRemoteURL = ''https://cdn.example/hls/abc/720p/seg0.ts''\<rparr>,
          \<lparr>relativePath = ''seg1.ts'', resolvedRemoteURL = ''https://cdn.example/hls/abc/720p/seg1.ts''\<rparr>,
          \<lparr>relativePath = ''seg2.ts'', resolvedRemoteURL = ''https://cdn.example/hls/abc/720p/seg2.ts''\<rparr>]"
    by code_simp
  have e: "ex_origin_url = rsplit1_head ex_origin_url @ ''/'' @ ''index.m3u8''" by code_simp
  note t1 = playlist_rewrite[of ex_origin_url ex_playlist "''720p''" "''#EXTM3U'' @ [CHR 0x0A]" "''seg0.ts''"
      "ex_world ex_net_ok" "''./cache/livepeer/720p''" ex_playlist ex_state]
  note t2 = playlist_rewrite[of ex_origin_url "''seg0.ts''" "''720p''" "[]" "[]"
      "ex_world ex_net_ok" "''./cache/livepeer/720p''" ex_playlist ex_state]
  from t1 n1 have a1: "modified_content ex_origin_url ''720p'' ex_playlist = ex_playlist" by blast
  from t2 n3 have a2: "modified_content ex_origin_url ''720p'' ''seg0.ts'' = ''seg0.ts''" by blast
  from t1 n2 have a3: "modified_content ex_origin_url ''720p''
        ((''#EXTM3U'' @ [CHR 0x0A]) @ (rsplit1_head ex_origin_url @ ''/'') @ ''seg0.ts'')
       = (''#EXTM3U'' @ [CHR 0x0A]) @ (LOCAL_PLAYBACK_URL_BASE @ ''720p'' @ ''/'')
            @ modified_content ex_origin_url ''720p'' ''seg0.ts''" by blast
  from a3 a2 h have a4: "modified_content ex_origin_url ''720p''
        (''#EXTM3U'' @ [CHR 0x0A] @ ''https://cdn.example/hls/abc/720p/'' @ ''seg0.ts'')
       = ''#EXTM3U'' @ [CHR 0x0A] @ ''http://localhost:8080/cache/720p/'' @ ''seg0.ts''"
    by (simp add: LOCAL_PLAYBACK_URL_BASE_def)
  from t1 have a5: "download_segments (ex_world ex_net_ok) (rsplit1_head ex_origin_url) ''./cache/livepeer/720p''
        (splitlines ex_playlist) ex_state
       = fetch_references (ex_world ex_net_ok) ''./cache/livepeer/720p''
           (playlist_references ex_origin_url ex_playlist) ex_state" by blast
  from e h a1 a4 r a5 show ?thesis by blast
qed

text \<open>
  Claim C8 as stated fails: an encryption-key line whose URI lies under the origin base
  starts with \<open>#\<close> and is rewritten, though it is not a reference.
\<close>

theorem directive_lines_rewritten_counterexample:
  "startswith ex_key_line ''#''
   \<and> modified_content ex_origin_url ''720p'' ex_key_line = ex_key_line_rewritten
   \<and> ex_key_line_rewritten \<noteq> ex_key_line
   \<and> playlist_references ex_origin_url ex_key_line = []"
  by code_simp

text \<open>
  Claim C8, amended. A directive line (a line that starts with \<open>#\<close>) is never a
  reference, and the loop over the lines requests nothing for it. The substitution,
  though, is applied to the whole text, directive lines included: a text in which the
  origin base followed by a slash does not occur is left as it is, and a text in which
  it occurs is changed, unless the local prefix equals the origin prefix.
\<close>

theorem directive_lines:
  "(\<forall>r \<in> set (playlist_references playlist_url playlist_content). \<not> startswith (relativePath r) ''#'')
   \<and> download_segments w base_url profile_dir lines st
       = download_segments w base_url profile_dir (filter (\<lambda>line. \<not> startswith line ''#'') lines) st
   \<and> (\<not> sublist (rsplit1_head playlist_url @ ''/'') text \<longrightarrow>
        modified_content playlist_url profile_name text = text)
   \<and> (sublist (rsplit1_head playlist_url @ ''/'') text
        \<and> LOCAL_PLAYBACK_URL_BASE @ profile_name @ ''/'' \<noteq> rsplit1_head playlist_url @ ''/'' \<longrightarrow>
        modified_content playlist_url profile_name text \<noteq> text)"
proof -
  have ne: "rsplit1_head playlist_url @ ''/'' \<noteq> []" by simp
  have a: "\<forall>r \<in> set (playlist_references playlist_url playlist_content). \<not> startswith (relativePath r) ''#''"
    by (auto simp: playlist_references_def is_reference_def)
  have b: "download_segments w base_url profile_dir lines st
       = download_segments w base_url profile_dir (filter (\<lambda>line. \<not> startswith line ''#'') lines) st"
    by (rule download_segments_skip_directives)
  have c: "\<not> sublist (rsplit1_head playlist_url @ ''/'') text \<longrightarrow>
        modified_content playlist_url profile_name text = text"
    unfolding modified_content_def using str_replace_absent[OF ne] by blast
  have d: "sublist (rsplit1_head playlist_url @ ''/'') text
        \<and> LOCAL_PLAYBACK_URL_BASE @ profile_name @ ''/'' \<noteq> rsplit1_head playlist_url @ ''/'' \<longrightarrow>
        modified_content playlist_url profile_name text \<noteq> text"
    unfolding modified_content_def using str_replace_present[OF ne] by blast
  from a b c d show ?thesis by blast
qed

theorem directive_lines_witness:
  "map relativePath (playlist_references ex_origin_url ex_playlist) = [''seg0.ts'', ''seg1.ts'', ''seg2.ts'']
   \<and> \<not> startswith ''seg0.ts'' ''#'' \<and> \<not> startswith ''seg1.ts'' ''#'' \<and> \<not> startswith ''seg2.ts'' ''#''
   \<and> modified_content ex_origin_url ''720p'' ''#EXT-X-VERSION:3'' = ''#EXT-X-VERSION:3''
   \<and> sublist (rsplit1_head ex_origin_url @ ''/'') ex_key_line
   \<and> modified_content ex_origin_url ''720p'' ex_key_line \<noteq> ex_key_line"
proof -
  have r: "map relativePath (playlist_references ex_origin_url ex_playlist) = [''seg0.ts'', ''seg1.ts'', ''seg2.ts'']"
    by code_simp
  have n: "\<not> sublist (rsplit1_head ex_origin_url @ ''/'') ''#EXT-X-VERSION:3''" by code_simp
  have p: "sublist (rsplit1_head ex_origin_url @ ''/'') ex_key_line" by code_simp
  have q: "LOCAL_PLAYBACK_URL_BASE @ ''720p'' @ ''/'' \<noteq> rsplit1_head ex_origin_url @ ''/''" by code_simp
  note t1 = directive_lines[of ex_origin_url ex_playlist "ex_world ex_net_ok" "[]" "[]" "[]" ex_state
      "''#EXT-X-VERSION:3''" "''720p''"]
  note t2 = directive_lines[of ex_origin_url ex_playlist "ex_world ex_net_ok" "[]" "[]" "[]" ex_state
      ex_key_line "''720p''"]
  from t1 have b: "\<forall>r \<in> set (playlist_references ex_origin_url ex_playlist). \<not> startswith (relativePath r) ''#''"
    by blast
  then have "\<forall>l \<in> set (map relativePath (playlist_references ex_origin_url ex_playlist)). \<not> startswith l ''#''"
    by simp
  then have s: "\<not> startswith ''seg0.ts'' ''#'' \<and> \<not> startswith ''seg1.ts'' ''#'' \<and> \<not> startswith ''seg2.ts'' ''#''"
    unfolding r by simp
  from t1 n have c: "modified_content ex_origin_url ''720p'' ''#EXT-X-VERSION:3'' = ''#EXT-X-VERSION:3''"
    by blast
  from t2 p q have d: "modified_content ex_origin_url ''720p'' ex_key_line \<noteq> ex_key_line" by blast
  from r s c p d show ?thesis by blast
qed

section \<open>The segment fetcher\<close>




text \<open>
  Claim C5 fails on the code. The file is opened for writing before the body of the
  response is read: when the request of a segment is answered with status 200 and the
  connection breaks while the body is read, the client error is caught, and an empty
  file stays at the local destination path, where nothing existed before.
\<close>

theorem truncated_segment_leaves_empty_file:
  "stat [''srv''] ex_disk_dirs ''./cache/livepeer/480p/seg1.ts'' = None
   \<and> http_get (ex_world ex_net_truncated) 0 ''https://cdn.livepeer.studio/hls/abc/480p/seg1.ts''
       = Inr \<lparr>status = 200, payload = Inl (ClientError ''Response payload is not completed'')\<rparr>
   \<and> fetch_segment (ex_world ex_net_truncated) ''https://cdn.livepeer.studio/hls/abc/480p/seg1.ts''
        ''./cache/livepeer/480p/seg1.ts'' \<lparr>files = ex_disk_dirs, requests = []\<rparr>
       = (None, \<lparr>files = ex_disk_dirs @ [(ex_cache_dir @ [''seg1.ts''], File [])],
                 requests = [''https://cdn.livepeer.studio/hls/abc/480p/seg1.ts'']\<rparr>)
   \<and> stat [''srv''] (ex_disk_dirs @ [(ex_cache_dir @ [''seg1.ts''], File [])])
        ''./cache/livepeer/480p/seg1.ts'' = Some (File [])"
  by code_simp

section \<open>The cache filler\<close>































section \<open>The local content server\<close>







text \<open>
  Claim C9. The requested path is joined to the cache root as a string and resolved by
  the file system, with no normalisation and no confinement: whenever the cache root
  \<open>cache/livepeer\<close> exists under the working directory, the request
  \<open>../../name\<close> for a readable file \<open>name\<close> of the working directory has a
  \<open>..\<close> component, resolves to that file, which lies outside the cache root, and is
  answered with status 200 and the contents of the file.
\<close>

theorem handle_serves_outside_cache_root:
  assumes "is_dir fs (cwd w)" "is_dir fs (cwd w @ [''cache''])"
    "is_dir fs (cwd w @ [''cache'', ''livepeer''])"
    "lookup fs (cwd w @ [nm]) = Some (File content)" "read_error w (cwd w @ [nm]) = None"
    "CHR ''/'' \<notin> set nm" "nm \<noteq> []" "nm \<noteq> ''.''" "nm \<noteq> ''..''"
  shows "''..'' \<in> set (split_slash (''../../'' @ nm))
       \<and> resolve (cwd w) fs (path_join LOCAL_CACHE_DIR (''../../'' @ nm)) = Some (cwd w @ [nm])
       \<and> \<not> prefix (abspath (cwd w) LOCAL_CACHE_DIR) (cwd w @ [nm])
       \<and> code (handle w fs (''../../'' @ nm)) = 200
       \<and> body (handle w fs (''../../'' @ nm)) = content"
proof -
  have j: "path_join LOCAL_CACHE_DIR (''../../'' @ nm) = ''./cache/livepeer/../../'' @ nm"
    by (simp add: path_join_def LOCAL_CACHE_DIR_def startswith_def endswith_def suffix_def)
  have s: "split_slash (path_join LOCAL_CACHE_DIR (''../../'' @ nm))
             = [''.'', ''cache'', ''livepeer'', ''..'', ''..'', nm]"
    using assms(6) unfolding j by (simp add: split_slash_def split_slash_from_noslash)
  have ns: "\<not> startswith (path_join LOCAL_CACHE_DIR (''../../'' @ nm)) ''/''"
    unfolding j by (simp add: startswith_def)
  have r: "resolve (cwd w) fs (path_join LOCAL_CACHE_DIR (''../../'' @ nm)) = Some (cwd w @ [nm])"
  proof -
    have wk: "walk fs (cwd w) [''.'', ''cache'', ''livepeer'', ''..'', ''..'', nm] = Some (cwd w @ [nm])"
      using assms(1,2,3,7,8,9) by (simp add: butlast_append)
    show ?thesis by (simp only: resolve_def s ns if_False wk)
  qed
  have d: "''..'' \<in> set (split_slash (''../../'' @ nm))"
    using assms(6) by (simp add: split_slash_def split_slash_from_noslash)
  have a: "abspath (cwd w) LOCAL_CACHE_DIR = cwd w @ [''cache'', ''livepeer'']"
    by (simp add: abspath_def LOCAL_CACHE_DIR_def startswith_def split_slash_def)
  have p: "\<not> prefix (abspath (cwd w) LOCAL_CACHE_DIR) (cwd w @ [nm])"
    unfolding a by (auto simp: prefix_def)
  have h: "code (handle w fs (''../../'' @ nm)) = 200 \<and> body (handle w fs (''../../'' @ nm)) = content"
    using r assms(4,5)
    by (simp add: handle_def Let_def path_exists_def path_isfile_def stat_def read_file_def)
  from d r p h show ?thesis by simp
qed

theorem handle_serves_outside_cache_root_witness:
  "''..'' \<in> set (split_slash ''../../settings.env'')
   \<and> resolve [''srv''] ex_disk_cached (path_join LOCAL_CACHE_DIR ''../../settings.env'')
       = Some [''srv'', ''settings.env'']
   \<and> abspath [''srv''] LOCAL_CACHE_DIR = [''srv'', ''cache'', ''livepeer'']
   \<and> code (handle (ex_world ex_net_ok) ex_disk_cached ''../../settings.env'') = 200
   \<and> body (handle (ex_world ex_net_ok) ex_disk_cached ''../../settings.env'') = ''LIVEPEER_API_KEY=secret''"
proof -
  let ?w = "ex_world ex_net_ok"
  have c: "cwd ?w = [''srv'']" by (simp add: ex_world_def)
  have h1: "is_dir ex_disk_cached (cwd ?w)" by (simp add: ex_eval)
  have h2: "is_dir ex_disk_cached (cwd ?w @ [''cache''])" by (simp add: ex_eval)
  have h3: "is_dir ex_disk_cached (cwd ?w @ [''cache'', ''livepeer''])" by (simp add: ex_eval)
  have h4: "lookup ex_disk_cached (cwd ?w @ [''settings.env'']) = Some (File ''LIVEPEER_API_KEY=secret'')"
    by (simp add: ex_eval)
  have h5: "read_error ?w (cwd ?w @ [''settings.env'']) = None" by (simp add: ex_world_def)
  have a: "abspath [''srv''] LOCAL_CACHE_DIR = [''srv'', ''cache'', ''livepeer'']"
    by (simp add: abspath_def LOCAL_CACHE_DIR_def startswith_def split_slash_def)
  from handle_serves_outside_cache_root[OF h1 h2 h3 h4 h5] a c show ?thesis by simp
qed

section \<open>The session\<close>

lemma fetch_segment_ffmpeg:
  "fetch_segment (w\<lparr>ffmpeg := x\<rparr>) u p st = fetch_segment w u p st"
  unfolding fetch_segment_def by (simp add: Let_def split: sum.split prod.split)

lemma download_segments_ffmpeg:
  "download_segments (w\<lparr>ffmpeg := x\<rparr>) b d ls st = download_segments w b d ls st"
  by (induction ls arbitrary: st) (simp_all add: fetch_segment_ffmpeg split: option.split prod.split)

lemma cache_profile_ffmpeg:
  "cache_profile (w\<lparr>ffmpeg := x\<rparr>) p acc = cache_profile w p acc"
  unfolding cache_profile_def
  by (simp add: download_segments_ffmpeg Let_def split: sum.split prod.split option.split)

lemma cache_profiles_ffmpeg:
  "cache_profiles (w\<lparr>ffmpeg := x\<rparr>) ps acc = cache_profiles w ps acc"
  by (induction ps arbitrary: acc) (simp_all add: cache_profile_ffmpeg split: option.split prod.split)

lemma fetch_and_cache_hls_ffmpeg:
  "fetch_and_cache_hls (w\<lparr>ffmpeg := x\<rparr>) ps st = fetch_and_cache_hls w ps st"
  unfolding fetch_and_cache_hls_def by (simp add: cache_profiles_ffmpeg split: sum.split)

lemma create_stream_ffmpeg: "create_stream (w\<lparr>ffmpeg := x\<rparr>) = create_stream w"
  unfolding create_stream_def by simp

lemma serve_ffmpeg: "serve_cached_content (w\<lparr>ffmpeg := x\<rparr>) = serve_cached_content w"
  unfolding serve_cached_content_def by simp

lemma session_ignores_push:
  "stream_video_to_livepeer (w\<lparr>ffmpeg := x\<rparr>) video_path st = stream_video_to_livepeer w video_path st"
  unfolding stream_video_to_livepeer_def
  by (simp add: create_stream_ffmpeg serve_ffmpeg fetch_and_cache_hls_ffmpeg Let_def
      split: sum.split prod.split option.split)

text \<open>
  Claim C7 as stated fails: the result has no entry for the push. Two sessions that
  differ only in the return code of ffmpeg, so that the push succeeds in one and fails
  in the other, return the same result.
\<close>

theorem session_result_omits_push_counterexample:
  "push_to_livepeer (ex_world ex_net_ok) ex_disk ''rtmp://rtmp.example/live/key'' ''video.mp4'' = True
   \<and> push_to_livepeer ((ex_world ex_net_ok)\<lparr>ffmpeg := Inr 1\<rparr>) ex_disk
        ''rtmp://rtmp.example/live/key'' ''video.mp4'' = False
   \<and> fst (stream_video_to_livepeer (ex_world ex_net_ok) ''video.mp4'' ex_state) = ex_result
   \<and> fst (stream_video_to_livepeer ((ex_world ex_net_ok)\<lparr>ffmpeg := Inr 1\<rparr>) ''video.mp4'' ex_state)
       = ex_result"
  by code_simp

text \<open>
  Claim C7, amended. Every session returns a result. When the allocation fails, the
  result is the initial one with the message of the error. When it succeeds, the
  result has the success flag, the stream id, the ingest URL and the playback URLs of
  the descriptor. When the server or the fill raised, its local playback URLs are empty
  and its error is the message of the exception. When the fill returned, its local
  playback URLs are the map of the fill, and its error is the message of the exception
  that the cleanup of the server raised, and absent when there was no server or the
  cleanup raised nothing. The outcome of the push is not part of the result: changing
  it changes neither the result nor the final state.
\<close>

theorem session_result_record:
  "(case create_stream w of
      Inl e \<Rightarrow>
        fst (stream_video_to_livepeer w video_path st) = initial_result\<lparr>error := Some (str_of_exn e)\<rparr>
    | Inr stream \<Rightarrow>
        success (fst (stream_video_to_livepeer w video_path st)) = True
        \<and> stream_id (fst (stream_video_to_livepeer w video_path st)) = Some (info_id stream)
        \<and> ingest_url (fst (stream_video_to_livepeer w video_path st)) = Some (ingest stream)
        \<and> playback_urls (fst (stream_video_to_livepeer w video_path st))
            = fold (\<lambda>profile d. AList.update (name profile) (url profile) d) (playback stream) []
        \<and> (case serve_cached_content w of
              Inl e \<Rightarrow>
                local_playback_urls (fst (stream_video_to_livepeer w video_path st)) = []
                \<and> error (fst (stream_video_to_livepeer w video_path st)) = Some (str_of_exn e)
            | Inr server_runner \<Rightarrow>
                (case fst (fetch_and_cache_hls w (playback stream) st) of
                   Inl e \<Rightarrow>
                     local_playback_urls (fst (stream_video_to_livepeer w video_path st)) = []
                     \<and> error (fst (stream_video_to_livepeer w video_path st)) = Some (str_of_exn e)
                 | Inr local_urls \<Rightarrow>
                     local_playback_urls (fst (stream_video_to_livepeer w video_path st)) = local_urls
                     \<and> error (fst (stream_video_to_livepeer w video_path st))
                         = (if server_runner
                            then (case runner_cleanup w of
                                    None \<Rightarrow> None
                                  | Some e \<Rightarrow> Some (str_of_exn e))
                            else None))))
   \<and> stream_video_to_livepeer (w\<lparr>ffmpeg := push_outcome\<rparr>) video_path st
       = stream_video_to_livepeer w video_path st"
proof -
  have "stream_video_to_livepeer (w\<lparr>ffmpeg := push_outcome\<rparr>) video_path st
       = stream_video_to_livepeer w video_path st"
    by (rule session_ignores_push)
  moreover have "(case create_stream w of
      Inl e \<Rightarrow>
        fst (stream_video_to_livepeer w video_path st) = initial_result\<lparr>error := Some (str_of_exn e)\<rparr>
    | Inr stream \<Rightarrow>
        success (fst (stream_video_to_livepeer w video_path st)) = True
        \<and> stream_id (fst (stream_video_to_livepeer w video_path st)) = Some (info_id stream)
        \<and> ingest_url (fst (stream_video_to_livepeer w video_path st)) = Some (ingest stream)
        \<and> playback_urls (fst (stream_video_to_livepeer w video_path st))
            = fold (\<lambda>profile d. AList.update (name profile) (url profile) d) (playback stream) []
        \<and> (case serve_cached_content w of
              Inl e \<Rightarrow>
                local_playback_urls (fst (stream_video_to_livepeer w video_path st)) = []
                \<and> error (fst (stream_video_to_livepeer w video_path st)) = Some (str_of_exn e)
            | Inr server_runner \<Rightarrow>
                (case fst (fetch_and_cache_hls w (playback stream) st) of
                   Inl e \<Rightarrow>
                     local_playback_urls (fst (stream_video_to_livepeer w video_path st)) = []
                     \<and> error (fst (stream_video_to_livepeer w video_path st)) = Some (str_of_exn e)
                 | Inr local_urls \<Rightarrow>
                     local_playback_urls (fst (stream_video_to_livepeer w video_path st)) = local_urls
                     \<and> error (fst (stream_video_to_livepeer w video_path st))
                         = (if server_runner
                            then (case runner_cleanup w of
                                    None \<Rightarrow> None
                                  | Some e \<Rightarrow> Some (str_of_exn e))
                            else None))))"
    by (auto simp: stream_video_to_livepeer_def initial_result_def Let_def
        split: sum.splits prod.splits option.splits)
  ultimately show ?thesis by simp
qed

theorem session_result_record_witness:
  "fst (fetch_and_cache_hls (ex_world ex_net_timeout) [ex_profile] ex_state)
       = Inl (OtherError ''TimeoutError'')
   \<and> success (fst (stream_video_to_livepeer (ex_world ex_net_timeout) ''video.mp4'' ex_state)) = True
   \<and> stream_id (fst (stream_video_to_livepeer (ex_world ex_net_timeout) ''video.mp4'' ex_state))
       = Some ''stream-1''
   \<and> local_playback_urls (fst (stream_video_to_livepeer (ex_world ex_net_timeout) ''video.mp4'' ex_state))
       = []
   \<and> error (fst (stream_video_to_livepeer (ex_world ex_net_timeout) ''video.mp4'' ex_state))
       = Some ''TimeoutError''
   \<and> stream_video_to_livepeer ((ex_world ex_net_timeout)\<lparr>ffmpeg := Inl (OtherError ''ffmpeg not found'')\<rparr>)
        ''video.mp4'' ex_state
       = stream_video_to_livepeer (ex_world ex_net_timeout) ''video.mp4'' ex_state
   \<and> local_playback_urls (fst (stream_video_to_livepeer (ex_world ex_net_ok) ''video.mp4'' ex_state))
       = [(''480p'', ''http://localhost:8080/cache/480p/index.m3u8'')]
   \<and> error (fst (stream_video_to_livepeer (ex_world ex_net_ok) ''video.mp4'' ex_state)) = None
   \<and> local_playback_urls
        (fst (stream_video_to_livepeer
               ((ex_world ex_net_ok)\<lparr>runner_cleanup := Some (OtherError ''cleanup failed'')\<rparr>)
               ''video.mp4'' ex_state))
       = [(''480p'', ''http://localhost:8080/cache/480p/index.m3u8'')]
   \<and> error
        (fst (stream_video_to_livepeer
               ((ex_world ex_net_ok)\<lparr>runner_cleanup := Some (OtherError ''cleanup failed'')\<rparr>)
               ''video.mp4'' ex_state))
       = Some ''cleanup failed''
   \<and> fst (stream_video_to_livepeer
             ((ex_world ex_net_ok)\<lparr>api_post := Inr \<lparr>api_status = 401, api_text = Inr ''unauthorized'',
                                                      api_json = Inr ex_json\<rparr>\<rparr>)
             ''video.mp4'' ex_state)
       = initial_result\<lparr>error := Some ''Failed to create stream: 401 - unauthorized''\<rparr>"
proof -
  let ?w = "ex_world ex_net_timeout"
  let ?v = "ex_world ex_net_ok"
  let ?c = "(ex_world ex_net_ok)\<lparr>runner_cleanup := Some (OtherError ''cleanup failed'')\<rparr>"
  let ?a = "(ex_world ex_net_ok)\<lparr>api_post := Inr \<lparr>api_status = 401, api_text = Inr ''unauthorized'',
                                                      api_json = Inr ex_json\<rparr>\<rparr>"
  let ?info = "\<lparr>info_id = ''stream-1'', info_name = ''decentralized-video-stream'',
            ingest = ''rtmp://rtmp.example/live/key'', playback = [ex_profile]\<rparr>"
  have c: "create_stream ?w = Inr ?info" by code_simp
  have s: "serve_cached_content ?w = Inr True" by code_simp
  have f: "fst (fetch_and_cache_hls ?w [ex_profile] ex_state) = Inl (OtherError ''TimeoutError'')"
    by code_simp
  have cv: "create_stream ?v = Inr ?info" by code_simp
  have sv: "serve_cached_content ?v = Inr True" by code_simp
  have fv: "fst (fetch_and_cache_hls ?v [ex_profile] ex_state)
              = Inr [(''480p'', ''http://localhost:8080/cache/480p/index.m3u8'')]"
    by code_simp
  have rv: "runner_cleanup ?v = None" by code_simp
  have cc: "create_stream ?c = Inr ?info" by code_simp
  have sc: "serve_cached_content ?c = Inr True" by code_simp
  have fc: "fst (fetch_and_cache_hls ?c [ex_profile] ex_state)
              = Inr [(''480p'', ''http://localhost:8080/cache/480p/index.m3u8'')]"
    by code_simp
  have rc: "runner_cleanup ?c = Some (OtherError ''cleanup failed'')" by simp
  have ca: "create_stream ?a = Inl (OtherError ''Failed to create stream: 401 - unauthorized'')"
    by code_simp
  from session_result_record[of ?w "''video.mp4''" ex_state "Inl (OtherError ''ffmpeg not found'')"] c s f
  have t1: "success (fst (stream_video_to_livepeer ?w ''video.mp4'' ex_state)) = True
   \<and> stream_id (fst (stream_video_to_livepeer ?w ''video.mp4'' ex_state)) = Some ''stream-1''
   \<and> local_playback_urls (fst (stream_video_to_livepeer ?w ''video.mp4'' ex_state)) = []
   \<and> error (fst (stream_video_to_livepeer ?w ''video.mp4'' ex_state)) = Some ''TimeoutError''
   \<and> stream_video_to_livepeer (?w\<lparr>ffmpeg := Inl (OtherError ''ffmpeg not found'')\<rparr>) ''video.mp4'' ex_state
       = stream_video_to_livepeer ?w ''video.mp4'' ex_state"
    by simp
  from session_result_record[of ?v "''video.mp4''" ex_state "Inr 0"] cv sv fv rv
  have t2: "local_playback_urls (fst (stream_video_to_livepeer ?v ''video.mp4'' ex_state))
       = [(''480p'', ''http://localhost:8080/cache/480p/index.m3u8'')]
   \<and> error (fst (stream_video_to_livepeer ?v ''video.mp4'' ex_state)) = None"
    by simp
  from session_result_record[of ?c "''video.mp4''" ex_state "Inr 0"] cc sc fc rc
  have t3: "local_playback_urls (fst (stream_video_to_livepeer ?c ''video.mp4'' ex_state))
       = [(''480p'', ''http://localhost:8080/cache/480p/index.m3u8'')]
   \<and> error (fst (stream_video_to_livepeer ?c ''video.mp4'' ex_state)) = Some ''cleanup failed''"
    by simp
  from session_result_record[of ?a "''video.mp4''" ex_state "Inr 0"] ca
  have t4: "fst (stream_video_to_livepeer ?a ''video.mp4'' ex_state)
       = initial_result\<lparr>error := Some ''Failed to create stream: 401 - unauthorized''\<rparr>"
    by simp
  from f t1 t2 t3 t4 show ?thesis by blast
qed

text \<open>
  Claim C10. The success flag of the session result is true exactly when
  \<open>create_stream\<close> returned a stream descriptor, whatever the push, the local server
  and the cache fill did afterwards.
\<close>

theorem success_flag_reflects_allocation:
  "success (fst (stream_video_to_livepeer w video_path st))
     = (case create_stream w of Inl e \<Rightarrow> False | Inr stream \<Rightarrow> True)"
  by (auto simp: stream_video_to_livepeer_def initial_result_def Let_def
      split: sum.splits prod.splits option.splits)

end
